theory Spec2Isabelle
  imports Complex_Main "HOL-Library.Char_ord" "HOL-Library.List_Lexorder"
    "HOL-Library.Product_Lexorder" "HOL-Library.Multiset"
begin

section \<open>The energy-audit dashboard (streamlit\_app.py)\<close>

text \<open>
  The program is one script: \<open>load_data\<close> reads and cleans a CSV table, and the body
  of the script filters it by the selected community and computes sums, counts and
  ratios. The table library is modelled by what the script uses of it:
  \<^item> a cell is a number, a string or the missing marker \<open>NaN\<close>; numbers are exact
    reals (64-bit rounding and infinities are outside the model);
  \<^item> a frame is a list of column labels and a list of rows, one cell per label;
  \<^item> an exception is the \<open>Inl\<close> of a sum type;
  \<^item> what the script prints with \<open>st.error\<close> and \<open>st.warning\<close> is a list of
    messages returned beside the result.
\<close>

subsection \<open>Cells, frames, exceptions\<close>

datatype cell = NaN | Num real | Str string

datatype exn =
    FileNotFoundError
  | PermissionError
  | ParserError
  | KeyError string
  | DuplicateLabel string
  | TypeError
  | ZeroDivisionError

datatype message = StError string | StWarning string

record dataframe =
  columns :: "string list"
  rows :: "cell list list"

definition bind_exn :: "exn + 'a \<Rightarrow> ('a \<Rightarrow> exn + 'b) \<Rightarrow> exn + 'b" where
  "bind_exn m f = (case m of Inl e \<Rightarrow> Inl e | Inr x \<Rightarrow> f x)"

text \<open>\<open>pd.DataFrame()\<close> and \<open>df.empty\<close>: a frame is empty when an axis has length 0.\<close>

definition empty_frame :: dataframe where
  "empty_frame = \<lparr>columns = [], rows = []\<rparr>"


definition rectangular :: "dataframe \<Rightarrow> bool" where
  "rectangular df \<longleftrightarrow> list_all (\<lambda>r. length r = length (columns df)) (rows df)"

subsection \<open>Reading the file\<close>

text \<open>
  The file system gives, for a path, a missing file, a file that exists and cannot be
  read, or the parsed table (header and rows of cells as the reader infers them: an
  empty field is \<open>NaN\<close>, a field of a numeric column is a number, any other a string).
  \<open>pd.read_csv\<close> raises \<open>FileNotFoundError\<close> on the first, \<open>PermissionError\<close> on the
  second (a sibling of \<open>FileNotFoundError\<close> under \<open>OSError\<close>, not a subclass of it),
  and \<open>ParserError\<close> on a row with more fields than the header; a shorter row is
  padded with \<open>NaN\<close>, so every frame it returns is rectangular.
\<close>

datatype file_state = Missing | Unreadable | Table "string list" "cell list list"

type_synonym filesystem = "string \<Rightarrow> file_state"

definition pad_row :: "nat \<Rightarrow> cell list \<Rightarrow> cell list" where
  "pad_row n r = r @ replicate (n - length r) NaN"

definition read_csv :: "filesystem \<Rightarrow> string \<Rightarrow> exn + dataframe" where
  "read_csv fs file_path =
     (case fs file_path of
        Missing \<Rightarrow> Inl FileNotFoundError
      | Unreadable \<Rightarrow> Inl PermissionError
      | Table hdr rws \<Rightarrow>
          if list_ex (\<lambda>r. length hdr < length r) rws then Inl ParserError
          else Inr \<lparr>columns = hdr, rows = map (pad_row (length hdr)) rws\<rparr>)"

subsection \<open>Column access\<close>

fun index_of :: "'a \<Rightarrow> 'a list \<Rightarrow> nat option" where
  "index_of x [] = None"
| "index_of x (y # ys) =
     (if x = y then Some 0 else map_option Suc (index_of x ys))"

text \<open>
  \<open>df[col]\<close> is a series when exactly one column has the label. With no such column
  it raises \<open>KeyError\<close>; with several it is a frame, on which the consumers of this
  script raise (recorded as \<open>DuplicateLabel\<close>).
\<close>

definition col_index :: "dataframe \<Rightarrow> string \<Rightarrow> exn + nat" where
  "col_index df col =
     (case index_of col (columns df) of
        None \<Rightarrow> Inl (KeyError col)
      | Some i \<Rightarrow>
          if 1 < length (filter (\<lambda>c. c = col) (columns df)) then Inl (DuplicateLabel col)
          else Inr i)"

definition series :: "dataframe \<Rightarrow> string \<Rightarrow> exn + cell list" where
  "series df col = bind_exn (col_index df col) (\<lambda>i. Inr (map (\<lambda>r. r ! i) (rows df)))"

subsection \<open>load\_data\<close>

text \<open>\<open>str.strip()\<close> on the ASCII white space characters.\<close>

definition is_space :: "char \<Rightarrow> bool" where
  "is_space c \<longleftrightarrow> c \<in> set [CHR 0x20, CHR 0x09, CHR 0x0A, CHR 0x0B, CHR 0x0C, CHR 0x0D,
                            CHR 0x1C, CHR 0x1D, CHR 0x1E, CHR 0x1F]"

definition strip :: "string \<Rightarrow> string" where
  "strip s = rev (dropWhile is_space (rev (dropWhile is_space s)))"

text \<open>
  \<open>pd.to_numeric(..., errors='coerce')\<close> on one cell. The parser of numeric text is
  the library's; it is a parameter \<open>parse\<close>, \<open>None\<close> where the text is not a number.
\<close>

fun to_numeric :: "(string \<Rightarrow> real option) \<Rightarrow> cell \<Rightarrow> cell" where
  "to_numeric parse NaN = NaN"
| "to_numeric parse (Num x) = Num x"
| "to_numeric parse (Str s) = (case parse s of None \<Rightarrow> NaN | Some x \<Rightarrow> Num x)"

text \<open>One turn of the loop: \<open>df[col] = pd.to_numeric(df[col], errors='coerce')\<close>.\<close>

definition to_numeric_at :: "(string \<Rightarrow> real option) \<Rightarrow> nat \<Rightarrow> cell list \<Rightarrow> cell list" where
  "to_numeric_at parse i r = r[i := to_numeric parse (r ! i)]"

definition to_numeric_col ::
  "(string \<Rightarrow> real option) \<Rightarrow> dataframe \<Rightarrow> string \<Rightarrow> exn + dataframe" where
  "to_numeric_col parse df col =
     bind_exn (col_index df col)
       (\<lambda>i. Inr (df\<lparr>rows := map (to_numeric_at parse i) (rows df)\<rparr>))"

fun for_cols ::
  "(string \<Rightarrow> real option) \<Rightarrow> string list \<Rightarrow> dataframe \<Rightarrow> exn + dataframe" where
  "for_cols parse [] df = Inr df"
| "for_cols parse (col # cols) df =
     bind_exn (to_numeric_col parse df col) (for_cols parse cols)"

definition numeric_columns :: "string list" where
  "numeric_columns = [''Energy Saved'', ''Money Saved'', ''Investment'', ''Pay back period'']"

text \<open>\<open>df.fillna(0, inplace=True)\<close>: every missing cell of every column becomes 0.\<close>

fun fill_cell :: "cell \<Rightarrow> cell" where
  "fill_cell NaN = Num 0"
| "fill_cell c = c"

definition fillna0 :: "dataframe \<Rightarrow> dataframe" where
  "fillna0 df = df\<lparr>rows := map (map fill_cell) (rows df)\<rparr>"

definition not_found_message :: "string \<Rightarrow> string" where
  "not_found_message file_path =
     ''Error: The file '' @ [CHR 0x27] @ file_path @ [CHR 0x27] @
     '' was not found. Please make sure the file is in the correct directory.''"

text \<open>The body of the \<open>try\<close> block.\<close>

definition load_body ::
  "filesystem \<Rightarrow> (string \<Rightarrow> real option) \<Rightarrow> string \<Rightarrow> exn + dataframe" where
  "load_body fs parse file_path =
     bind_exn (read_csv fs file_path)
       (\<lambda>df. bind_exn (for_cols parse numeric_columns (df\<lparr>columns := map strip (columns df)\<rparr>))
         (\<lambda>df'. Inr (fillna0 df')))"

text \<open>
  \<open>load_data\<close>: the \<open>except\<close> clause names \<open>FileNotFoundError\<close> alone, so any
  other exception of the body leaves the function.
\<close>

definition load_data ::
  "filesystem \<Rightarrow> (string \<Rightarrow> real option) \<Rightarrow> string \<Rightarrow> message list \<times> (exn + dataframe)" where
  "load_data fs parse file_path =
     (case load_body fs parse file_path of
        Inl FileNotFoundError \<Rightarrow> ([StError (not_found_message file_path)], Inr empty_frame)
      | Inl e \<Rightarrow> ([], Inl e)
      | Inr df \<Rightarrow> ([], Inr df))"

subsection \<open>Series operations\<close>

text \<open>
  \<open>Series.sum()\<close> skips missing cells. A string in a summed column raises in this
  model (\<open>TypeError\<close>); after \<open>load_data\<close> the summed columns hold numbers only.
\<close>

fun num_sum :: "cell list \<Rightarrow> exn + real" where
  "num_sum [] = Inr 0"
| "num_sum (NaN # cs) = num_sum cs"
| "num_sum (Num x # cs) = bind_exn (num_sum cs) (\<lambda>s. Inr (x + s))"
| "num_sum (Str s # cs) = Inl TypeError"

text \<open>\<open>Series.count()\<close>: the number of cells that are not missing.\<close>

definition count_cells :: "cell list \<Rightarrow> nat" where
  "count_cells cs = length (filter (\<lambda>c. c \<noteq> NaN) cs)"

text \<open>Elementwise \<open>==\<close>: a missing cell equals nothing, itself included.\<close>

fun cell_eq :: "cell \<Rightarrow> cell \<Rightarrow> bool" where
  "cell_eq NaN c = False"
| "cell_eq c NaN = False"
| "cell_eq c d = (c = d)"

text \<open>
  Python's \<open>/\<close> raises on a zero divisor; the script guards each division, and the
  model keeps the fault as a value so that the guard has something to prevent.
\<close>

definition py_div :: "real \<Rightarrow> real \<Rightarrow> exn + real" where
  "py_div a b = (if b = 0 then Inl ZeroDivisionError else Inr (a / b))"

fun map_exn :: "('a \<Rightarrow> exn + 'b) \<Rightarrow> 'a list \<Rightarrow> exn + 'b list" where
  "map_exn f [] = Inr []"
| "map_exn f (x # xs) =
     bind_exn (f x) (\<lambda>y. bind_exn (map_exn f xs) (\<lambda>ys. Inr (y # ys)))"

subsection \<open>Group-by\<close>

text \<open>
  The order of group keys: numbers before strings, numbers by value, strings by code
  point. \<open>groupby\<close> sorts its keys and drops the rows whose key is missing.
\<close>

fun cell_key :: "cell \<Rightarrow> nat \<times> real \<times> string" where
  "cell_key (Num x) = (0, x, [])"
| "cell_key (Str s) = (1, 0, s)"
| "cell_key NaN = (2, 0, [])"

definition group_keys :: "cell list \<Rightarrow> cell list" where
  "group_keys cs = sort_key cell_key (remdups (filter (\<lambda>c. c \<noteq> NaN) cs))"

definition groupby :: "dataframe \<Rightarrow> string \<Rightarrow> exn + (cell \<times> cell list list) list" where
  "groupby df key =
     bind_exn (col_index df key)
       (\<lambda>i. Inr (map (\<lambda>k. (k, filter (\<lambda>r. r ! i = k) (rows df)))
                    (group_keys (map (\<lambda>r. r ! i) (rows df)))))"

text \<open>\<open>df.groupby(key)[val].sum().reset_index()\<close>\<close>

definition group_sum :: "dataframe \<Rightarrow> string \<Rightarrow> string \<Rightarrow> exn + (cell \<times> real) list" where
  "group_sum df key val =
     bind_exn (groupby df key)
       (\<lambda>gs. bind_exn (col_index df val)
         (\<lambda>j. map_exn (\<lambda>(k, rs). bind_exn (num_sum (map (\<lambda>r. r ! j) rs)) (\<lambda>s. Inr (k, s))) gs))"

text \<open>\<open>df.groupby(key)[val].count().reset_index()\<close>\<close>

definition group_count :: "dataframe \<Rightarrow> string \<Rightarrow> string \<Rightarrow> exn + (cell \<times> nat) list" where
  "group_count df key val =
     bind_exn (groupby df key)
       (\<lambda>gs. bind_exn (col_index df val)
         (\<lambda>j. Inr (map (\<lambda>(k, rs). (k, count_cells (map (\<lambda>r. r ! j) rs))) gs)))"

text \<open>
  \<open>sort_values(col, ascending=False)\<close>: descending by the value; the order among
  equal values is not fixed by the library, here it is the order before the sort.
\<close>

definition sort_desc_count :: "(cell \<times> nat) list \<Rightarrow> (cell \<times> nat) list" where
  "sort_desc_count gs = sort_key (\<lambda>g. - int (snd g)) gs"

definition sort_desc_value :: "(cell \<times> real) list \<Rightarrow> (cell \<times> real) list" where
  "sort_desc_value gs = sort_key (\<lambda>g. - snd g) gs"

subsection \<open>The script after load\_data\<close>

definition data_path :: string where
  "data_path = ''data/2025 Energy Audit summary - Sheet1 (1).csv''"

text \<open>The community column label; its accented letter is two bytes of UTF-8.\<close>

definition community :: string where
  "community = ''Comunidad Aut'' @ [CHR 0xC3, CHR 0xB3] @ ''noma''"

text \<open>
  Python's \<open>sorted\<close> on the distinct values of a column: comparing a number with a
  string raises \<open>TypeError\<close>.
\<close>

fun is_str :: "cell \<Rightarrow> bool" where
  "is_str (Str s) = True"
| "is_str c = False"

definition py_sorted :: "cell list \<Rightarrow> exn + cell list" where
  "py_sorted cs =
     (if list_ex is_str cs \<and> list_ex (\<lambda>c. \<not> is_str c) cs then Inl TypeError
      else Inr (sort_key cell_key cs))"

text \<open>\<open>community_list = ['All'] + sorted(df[community].unique().tolist())\<close>\<close>

definition community_list :: "dataframe \<Rightarrow> exn + cell list" where
  "community_list df =
     bind_exn (series df community)
       (\<lambda>cs. bind_exn (py_sorted (rev (remdups (rev cs)))) (\<lambda>ss. Inr (Str ''All'' # ss)))"

text \<open>The boolean-mask selection \<open>df[df[col] == v]\<close>.\<close>

definition select_rows :: "dataframe \<Rightarrow> string \<Rightarrow> cell \<Rightarrow> exn + dataframe" where
  "select_rows df col v =
     bind_exn (col_index df col)
       (\<lambda>i. Inr (df\<lparr>rows := filter (\<lambda>r. cell_eq (r ! i) v) (rows df)\<rparr>))"

definition df_filtered :: "dataframe \<Rightarrow> cell \<Rightarrow> exn + dataframe" where
  "df_filtered df selected_community =
     (if selected_community = Str ''All'' then Inr df
      else select_rows df community selected_community)"

text \<open>The sum of one column of a frame.\<close>

definition col_sum :: "dataframe \<Rightarrow> string \<Rightarrow> exn + real" where
  "col_sum df col = bind_exn (series df col) num_sum"

definition roi :: "real \<Rightarrow> real \<Rightarrow> exn + real" where
  "roi total_money_saved total_investment =
     (if total_investment > 0
      then bind_exn (py_div total_money_saved total_investment) (\<lambda>q. Inr (q * 100))
      else Inr 0)"

text \<open>Chart 1: measures per community, or per centre of the selected community.\<close>

definition measure_counts :: "dataframe \<Rightarrow> dataframe \<Rightarrow> cell \<Rightarrow> exn + (cell \<times> nat) list" where
  "measure_counts df dff selected_community =
     (if selected_community = Str ''All''
      then bind_exn (group_count df community ''Measure'') (\<lambda>g. Inr (sort_desc_count g))
      else bind_exn (group_count dff ''Center'' ''Measure'') (\<lambda>g. Inr (sort_desc_count g)))"

text \<open>Chart 4: the investment summary table.\<close>

record summary_row =
  Community :: cell
  Total_Investment :: real
  Measure_Count :: nat
  Average_Investment_per_Measure :: real

definition average_investment :: "real \<Rightarrow> nat \<Rightarrow> exn + real" where
  "average_investment tot n = (if n > 0 then py_div tot (real n) else Inr 0)"

definition summary_of_group :: "nat \<Rightarrow> nat \<Rightarrow> cell \<times> cell list list \<Rightarrow> exn + summary_row" where
  "summary_of_group j m g =
     bind_exn (num_sum (map (\<lambda>r. r ! j) (snd g)))
       (\<lambda>tot. let n = count_cells (map (\<lambda>r. r ! m) (snd g)) in
          bind_exn (average_investment tot n)
            (\<lambda>avg. Inr \<lparr>Community = fst g, Total_Investment = tot, Measure_Count = n,
                        Average_Investment_per_Measure = avg\<rparr>))"

definition regional_investment_summary :: "dataframe \<Rightarrow> exn + summary_row list" where
  "regional_investment_summary dff =
     bind_exn (groupby dff community)
       (\<lambda>gs. bind_exn (col_index dff ''Investment'')
         (\<lambda>j. bind_exn (col_index dff ''Measure'')
           (\<lambda>m. map_exn (summary_of_group j m) gs)))"

text \<open>Chart 7: investment and money saved, summed per community.\<close>

definition financial_summary :: "dataframe \<Rightarrow> exn + (cell \<times> real \<times> real) list" where
  "financial_summary dff =
     bind_exn (groupby dff community)
       (\<lambda>gs. bind_exn (col_index dff ''Investment'')
         (\<lambda>j. bind_exn (col_index dff ''Money Saved'')
           (\<lambda>m. map_exn (\<lambda>(k, rs).
                   bind_exn (num_sum (map (\<lambda>r. r ! j) rs))
                     (\<lambda>ti. bind_exn (num_sum (map (\<lambda>r. r ! m) rs))
                       (\<lambda>tm. Inr (k, ti, tm)))) gs)))"

text \<open>
  The Madrid branch: the new column \<open>Energy_Saving_Percent\<close> of \<open>df_madrid\<close>, one
  cell per row of the filtered view.
\<close>

fun percent_cell :: "real \<Rightarrow> cell \<Rightarrow> exn + cell" where
  "percent_cell tot (Num x) = Inr (Num (x / tot * 100))"
| "percent_cell tot NaN = Inr NaN"
| "percent_cell tot (Str s) = Inl TypeError"

definition energy_saving_percent :: "dataframe \<Rightarrow> exn + cell list" where
  "energy_saving_percent df_madrid =
     bind_exn (series df_madrid ''Energy Saved'')
       (\<lambda>es. bind_exn (num_sum es)
         (\<lambda>total_energy_saved_madrid.
            if total_energy_saved_madrid > 0
            then map_exn (percent_cell total_energy_saved_madrid) es
            else Inr (replicate (length (rows df_madrid)) (Num 0))))"

record dashboard =
  d_community_list :: "cell list"
  d_selected :: cell
  d_filtered :: dataframe
  d_total_investment :: real
  d_total_money_saved :: real
  d_total_energy_saved :: real
  d_roi :: real
  d_measure_counts :: "(cell \<times> nat) list"
  d_energy_savings_community :: "(cell \<times> real) list"
  d_regional_investment_summary :: "summary_row list"
  d_economic_savings_community :: "(cell \<times> real) list"
  d_financial_summary :: "(cell \<times> real \<times> real) list"
  d_energy_saving_percent :: "cell list option"

text \<open>
  The branch \<open>if not df.empty\<close>, statement by statement. The select box is the user:
  a function from the options shown to the option picked.
\<close>

definition madrid_branch :: "dataframe \<Rightarrow> cell \<Rightarrow> exn + cell list option" where
  "madrid_branch dff selected_community =
     (if selected_community = Str ''Madrid''
      then bind_exn (energy_saving_percent dff) (\<lambda>p. Inr (Some p))
      else Inr None)"

definition script_body :: "(cell list \<Rightarrow> cell) \<Rightarrow> dataframe \<Rightarrow> exn + dashboard" where
  "script_body selectbox df =
     bind_exn (community_list df) (\<lambda>cl.
     let selected_community = selectbox cl in
     bind_exn (df_filtered df selected_community) (\<lambda>dff.
     bind_exn (col_sum dff ''Investment'') (\<lambda>total_investment.
     bind_exn (col_sum dff ''Money Saved'') (\<lambda>total_money_saved.
     bind_exn (col_sum dff ''Energy Saved'') (\<lambda>total_energy_saved.
     bind_exn (roi total_money_saved total_investment) (\<lambda>r.
     bind_exn (measure_counts df dff selected_community) (\<lambda>mc.
     bind_exn (group_sum dff community ''Energy Saved'') (\<lambda>esc.
     bind_exn (regional_investment_summary dff) (\<lambda>ris.
     bind_exn (group_sum dff community ''Money Saved'') (\<lambda>ecs.
     bind_exn (financial_summary dff) (\<lambda>fin.
     bind_exn (madrid_branch dff selected_community) (\<lambda>pct.
     Inr \<lparr>d_community_list = cl, d_selected = selected_community, d_filtered = dff,
          d_total_investment = total_investment, d_total_money_saved = total_money_saved,
          d_total_energy_saved = total_energy_saved, d_roi = r, d_measure_counts = mc,
          d_energy_savings_community = sort_desc_value esc,
          d_regional_investment_summary = ris, d_economic_savings_community = ecs,
          d_financial_summary = fin, d_energy_saving_percent = pct\<rparr>))))))))))))"


subsection \<open>The cache around load\_data\<close>

text \<open>
  \<open>@st.cache_data\<close> keeps, per argument, the value a call returned together with the
  messages it showed, and on a later call with the same argument replays the messages
  and returns the value without running the function. A call that raises stores
  nothing. \<open>reads\<close> counts the runs of the function body, each of which reads the file.
\<close>

record session =
  cache :: "string \<rightharpoonup> message list \<times> dataframe"
  reads :: nat

definition cached_load_data ::
  "filesystem \<Rightarrow> (string \<Rightarrow> real option) \<Rightarrow> string \<Rightarrow> session \<Rightarrow>
     (message list \<times> (exn + dataframe)) \<times> session" where
  "cached_load_data fs parse file_path s =
     (case cache s file_path of
        Some (msgs, df) \<Rightarrow> ((msgs, Inr df), s)
      | None \<Rightarrow>
          (case load_data fs parse file_path of
             (msgs, Inl e) \<Rightarrow> ((msgs, Inl e), s\<lparr>reads := Suc (reads s)\<rparr>)
           | (msgs, Inr df) \<Rightarrow>
               ((msgs, Inr df),
                s\<lparr>cache := (cache s)(file_path \<mapsto> (msgs, df)), reads := Suc (reads s)\<rparr>)))"

definition new_session :: session where
  "new_session = \<lparr>cache = Map.empty, reads = 0\<rparr>"


subsection \<open>Vocabulary of the properties\<close>

text \<open>The number in a cell, and the cells that hold one.\<close>

fun num_val :: "cell \<Rightarrow> real" where
  "num_val (Num x) = x"
| "num_val c = 0"

fun is_num :: "cell \<Rightarrow> bool" where
  "is_num (Num x) = True"
| "is_num c = False"

text \<open>
  What \<open>load_data\<close> establishes and row selection keeps: one cell per label in every
  row, no missing cell, and numbers in the four converted columns.
\<close>

definition clean :: "dataframe \<Rightarrow> bool" where
  "clean df \<longleftrightarrow>
     rectangular df \<and>
     (\<forall>r\<in>set (rows df). NaN \<notin> set r) \<and>
     (\<forall>col\<in>set numeric_columns. \<forall>i. col_index df col = Inr i \<longrightarrow>
        (\<forall>r\<in>set (rows df). is_num (r ! i)))"

subsection \<open>A small audit file\<close>

text \<open>
  Three measures, two in Madrid and one in Cataluna; a label with blanks around it,
  an empty measure, an investment read as text, an unparsable pay-back period and a
  short last row.
\<close>

definition example_header :: "string list" where
  "example_header =
     [community, ''Center'', ''Measure'', ''Energy Saved'', ''Money Saved'',
      '' Investment '', ''Pay back period'']"

definition example_fs :: filesystem where
  "example_fs p =
     (if p = data_path then
        Table example_header
          [[Str ''Madrid'', Str ''A'', Str ''m1'', Num 500, Num 200, Num 1000, Num 1],
           [Str ''Madrid'', Str ''B'', NaN, Num 250, Num 100, Str ''500'', Str ''N/A''],
           [Str ''Cataluna'', Str ''C'', Str ''m3'', Num 0, Num 0, Num 2000]]
      else Missing)"

definition example_parse :: "string \<Rightarrow> real option" where
  "example_parse s = (if s = ''500'' then Some 500 else None)"

definition example_raw :: dataframe where
  "example_raw =
     \<lparr>columns = example_header,
      rows = [[Str ''Madrid'', Str ''A'', Str ''m1'', Num 500, Num 200, Num 1000, Num 1],
              [Str ''Madrid'', Str ''B'', NaN, Num 250, Num 100, Str ''500'', Str ''N/A''],
              [Str ''Cataluna'', Str ''C'', Str ''m3'', Num 0, Num 0, Num 2000, NaN]]\<rparr>"

definition example_df :: dataframe where
  "example_df =
     \<lparr>columns = [community, ''Center'', ''Measure'', ''Energy Saved'', ''Money Saved'',
                 ''Investment'', ''Pay back period''],
      rows = [[Str ''Madrid'', Str ''A'', Str ''m1'', Num 500, Num 200, Num 1000, Num 1],
              [Str ''Madrid'', Str ''B'', Num 0, Num 250, Num 100, Num 500, Num 0],
              [Str ''Cataluna'', Str ''C'', Str ''m3'', Num 0, Num 0, Num 2000, Num 0]]\<rparr>"

definition example_madrid :: dataframe where
  "example_madrid =
     \<lparr>columns = [community, ''Center'', ''Measure'', ''Energy Saved'', ''Money Saved'',
                 ''Investment'', ''Pay back period''],
      rows = [[Str ''Madrid'', Str ''A'', Str ''m1'', Num 500, Num 200, Num 1000, Num 1],
              [Str ''Madrid'', Str ''B'', Num 0, Num 250, Num 100, Num 500, Num 0]]\<rparr>"

definition example_dashboard_madrid :: dashboard where
  "example_dashboard_madrid =
     \<lparr>d_community_list = [Str ''All'', Str ''Cataluna'', Str ''Madrid''],
      d_selected = Str ''Madrid'', d_filtered = example_madrid,
      d_total_investment = 1500, d_total_money_saved = 300, d_total_energy_saved = 750,
      d_roi = 20, d_measure_counts = [(Str ''A'', 1), (Str ''B'', 1)],
      d_energy_savings_community = [(Str ''Madrid'', 750)],
      d_regional_investment_summary =
        [\<lparr>Community = Str ''Madrid'', Total_Investment = 1500, Measure_Count = 2,
           Average_Investment_per_Measure = 750\<rparr>],
      d_economic_savings_community = [(Str ''Madrid'', 300)],
      d_financial_summary = [(Str ''Madrid'', 1500, 300)],
      d_energy_saving_percent = Some [Num (200 / 3), Num (100 / 3)]\<rparr>"

definition example_dashboard_all :: dashboard where
  "example_dashboard_all =
     \<lparr>d_community_list = [Str ''All'', Str ''Cataluna'', Str ''Madrid''],
      d_selected = Str ''All'', d_filtered = example_df,
      d_total_investment = 3500, d_total_money_saved = 300, d_total_energy_saved = 750,
      d_roi = 60 / 7, d_measure_counts = [(Str ''Madrid'', 2), (Str ''Cataluna'', 1)],
      d_energy_savings_community = [(Str ''Madrid'', 750), (Str ''Cataluna'', 0)],
      d_regional_investment_summary =
        [\<lparr>Community = Str ''Cataluna'', Total_Investment = 2000, Measure_Count = 1,
           Average_Investment_per_Measure = 2000\<rparr>,
         \<lparr>Community = Str ''Madrid'', Total_Investment = 1500, Measure_Count = 2,
           Average_Investment_per_Measure = 750\<rparr>],
      d_economic_savings_community = [(Str ''Cataluna'', 0), (Str ''Madrid'', 300)],
      d_financial_summary = [(Str ''Cataluna'', 2000, 0), (Str ''Madrid'', 1500, 300)],
      d_energy_saving_percent = None\<rparr>"

text \<open>A selection that matches no row: every total is 0.\<close>

definition example_dashboard_none :: dashboard where
  "example_dashboard_none =
     \<lparr>d_community_list = [Str ''All'', Str ''Cataluna'', Str ''Madrid''],
      d_selected = Str ''Sevilla'', d_filtered = example_df\<lparr>rows := []\<rparr>,
      d_total_investment = 0, d_total_money_saved = 0, d_total_energy_saved = 0,
      d_roi = 0, d_measure_counts = [],
      d_energy_savings_community = [],
      d_regional_investment_summary = [],
      d_economic_savings_community = [],
      d_financial_summary = [],
      d_energy_saving_percent = None\<rparr>"

text \<open>One measure in Madrid whose energy saving is negative.\<close>

definition negative_fs :: filesystem where
  "negative_fs p =
     (if p = data_path then
        Table [community, ''Center'', ''Measure'', ''Energy Saved'', ''Money Saved'',
               ''Investment'', ''Pay back period'']
          [[Str ''Madrid'', Str ''A'', Str ''m1'', Num (- 5), Num 0, Num 0, Num 0]]
      else Missing)"

definition negative_df :: dataframe where
  "negative_df =
     \<lparr>columns = [community, ''Center'', ''Measure'', ''Energy Saved'', ''Money Saved'',
                 ''Investment'', ''Pay back period''],
      rows = [[Str ''Madrid'', Str ''A'', Str ''m1'', Num (- 5), Num 0, Num 0, Num 0]]\<rparr>"

section \<open>Basic facts\<close>

subsection \<open>Exceptions\<close>

lemma bind_exn_Inl [simp]: "bind_exn (Inl e) f = Inl e"
  by (simp add: bind_exn_def)

lemma bind_exn_Inr [simp]: "bind_exn (Inr x) f = f x"
  by (simp add: bind_exn_def)

lemma bind_exn_eq_Inr: "bind_exn m f = Inr y \<longleftrightarrow> (\<exists>x. m = Inr x \<and> f x = Inr y)"
  by (cases m) simp_all

lemma bind_exn_eq_Inl:
  "bind_exn m f = Inl e \<longleftrightarrow> m = Inl e \<or> (\<exists>x. m = Inr x \<and> f x = Inl e)"
  by (cases m) simp_all

lemma map_exn_Inr_length: "map_exn f xs = Inr ys \<Longrightarrow> length ys = length xs"
  by (induction xs arbitrary: ys) (auto simp: bind_exn_eq_Inr)

lemma map_exn_Inr_nth:
  "map_exn f xs = Inr ys \<Longrightarrow> n < length xs \<Longrightarrow> f (xs ! n) = Inr (ys ! n)"
proof (induction xs arbitrary: ys n)
  case Nil
  then show ?case by simp
next
  case (Cons x xs)
  then show ?case by (cases n) (auto simp: bind_exn_eq_Inr)
qed

lemma map_exn_total:
  "(\<And>x. x \<in> set xs \<Longrightarrow> f x = Inr (g x)) \<Longrightarrow> map_exn f xs = Inr (map g xs)"
  by (induction xs) auto

subsection \<open>The example, evaluated\<close>

lemma example_read: "read_csv example_fs data_path = Inr example_raw"
  by (simp add: read_csv_def example_fs_def example_raw_def example_header_def pad_row_def)

lemma example_load: "load_data example_fs example_parse data_path = ([], Inr example_df)"
  by (simp add: load_data_def load_body_def example_read bind_exn_def example_raw_def
      example_header_def numeric_columns_def to_numeric_col_def to_numeric_at_def col_index_def
      strip_def is_space_def community_def example_parse_def fillna0_def example_df_def)

lemma example_filtered: "df_filtered example_df (Str ''Madrid'') = Inr example_madrid"
  by (simp add: df_filtered_def select_rows_def col_index_def bind_exn_def example_df_def
      example_madrid_def community_def)

lemma example_community_list:
  "community_list example_df = Inr [Str ''All'', Str ''Cataluna'', Str ''Madrid'']"
  by (simp add: community_list_def series_def col_index_def bind_exn_def example_df_def
      community_def py_sorted_def)

lemma example_body_madrid:
  "script_body (\<lambda>cl. Str ''Madrid'') example_df = Inr example_dashboard_madrid"
  by (simp add: script_body_def Let_def example_community_list example_filtered bind_exn_def
      col_sum_def series_def col_index_def example_madrid_def community_def roi_def py_div_def
      measure_counts_def group_count_def groupby_def group_keys_def count_cells_def
      sort_desc_count_def group_sum_def sort_desc_value_def regional_investment_summary_def
      summary_of_group_def average_investment_def financial_summary_def madrid_branch_def
      energy_saving_percent_def example_dashboard_madrid_def)

lemma example_body_all:
  "script_body (\<lambda>cl. Str ''All'') example_df = Inr example_dashboard_all"
  unfolding script_body_def Let_def example_community_list example_dashboard_all_def
  by (simp add: df_filtered_def bind_exn_def col_sum_def series_def
      col_index_def example_df_def community_def roi_def py_div_def measure_counts_def
      group_count_def groupby_def group_keys_def count_cells_def sort_desc_count_def
      group_sum_def sort_desc_value_def regional_investment_summary_def summary_of_group_def
      average_investment_def financial_summary_def madrid_branch_def energy_saving_percent_def)

lemma example_body_none:
  "script_body (\<lambda>cl. Str ''Sevilla'') example_df = Inr example_dashboard_none"
  unfolding script_body_def Let_def example_community_list example_dashboard_none_def
  by (simp add: df_filtered_def select_rows_def bind_exn_def col_sum_def series_def
      col_index_def example_df_def community_def roi_def measure_counts_def
      group_count_def groupby_def group_keys_def sort_desc_count_def
      group_sum_def sort_desc_value_def regional_investment_summary_def
      financial_summary_def madrid_branch_def)

subsection \<open>The statements of the script, one by one\<close>

lemma script_body_Inr:
  assumes "script_body selectbox df = Inr d"
  shows "\<exists>cl dff. community_list df = Inr cl \<and> d_community_list d = cl \<and>
           d_selected d = selectbox cl \<and>
           df_filtered df (selectbox cl) = Inr dff \<and> d_filtered d = dff \<and>
           col_sum dff ''Investment'' = Inr (d_total_investment d) \<and>
           col_sum dff ''Money Saved'' = Inr (d_total_money_saved d) \<and>
           col_sum dff ''Energy Saved'' = Inr (d_total_energy_saved d) \<and>
           roi (d_total_money_saved d) (d_total_investment d) = Inr (d_roi d) \<and>
           measure_counts df dff (selectbox cl) = Inr (d_measure_counts d) \<and>
           (\<exists>esc. group_sum dff community ''Energy Saved'' = Inr esc \<and>
                  d_energy_savings_community d = sort_desc_value esc) \<and>
           regional_investment_summary dff = Inr (d_regional_investment_summary d) \<and>
           group_sum dff community ''Money Saved'' = Inr (d_economic_savings_community d) \<and>
           financial_summary dff = Inr (d_financial_summary d) \<and>
           madrid_branch dff (selectbox cl) = Inr (d_energy_saving_percent d)"
  using assms unfolding script_body_def Let_def bind_exn_eq_Inr
  by (elim exE conjE) auto

section \<open>Return on investment\<close>

lemma roi_value: "roi tms ti = Inr (if 0 < ti then tms / ti * 100 else 0)"
  by (simp add: roi_def py_div_def)

text \<open>
  Claim C2. In every run of the script that reaches the dashboard, the totals are the
  column sums over the filtered view, \<open>roi\<close> is
  \<open>(total_money_saved / total_investment) * 100\<close> when the total investment is
  positive and \<open>0\<close> when it is \<open>0\<close>; and \<open>roi\<close> returns a value on every pair of
  totals, so the division in it never meets a zero divisor.
\<close>

theorem roi_correct:
  assumes "script_body selectbox df = Inr d"
  shows "col_sum (d_filtered d) ''Investment'' = Inr (d_total_investment d) \<and>
         col_sum (d_filtered d) ''Money Saved'' = Inr (d_total_money_saved d) \<and>
         (0 < d_total_investment d \<longrightarrow>
            d_roi d = d_total_money_saved d / d_total_investment d * 100) \<and>
         (d_total_investment d = 0 \<longrightarrow> d_roi d = 0) \<and>
         (\<forall>tms ti. roi tms ti = Inr (if 0 < ti then tms / ti * 100 else 0))"
proof -
  from script_body_Inr [OF assms] have
    "col_sum (d_filtered d) ''Investment'' = Inr (d_total_investment d)"
    "col_sum (d_filtered d) ''Money Saved'' = Inr (d_total_money_saved d)"
    "roi (d_total_money_saved d) (d_total_investment d) = Inr (d_roi d)"
    by auto
  then show ?thesis
    by (simp add: roi_value split: if_splits)
qed

theorem roi_correct_witness:
  "script_body (\<lambda>cl. Str ''Madrid'') example_df = Inr example_dashboard_madrid \<and>
   0 < d_total_investment example_dashboard_madrid \<and>
   d_roi example_dashboard_madrid = 300 / 1500 * 100 \<and>
   script_body (\<lambda>cl. Str ''Sevilla'') example_df = Inr example_dashboard_none \<and>
   d_total_investment example_dashboard_none = 0 \<and>
   d_roi example_dashboard_none = 0"
  using roi_correct [OF example_body_madrid] roi_correct [OF example_body_none]
    example_body_madrid example_body_none
  by (simp add: example_dashboard_madrid_def example_dashboard_none_def)

section \<open>Loading\<close>

subsection \<open>Column lookup and the conversion loop\<close>

lemma index_of_Some: "index_of x xs = Some i \<Longrightarrow> i < length xs \<and> xs ! i = x"
proof (induction xs arbitrary: i)
  case Nil
  then show ?case by simp
next
  case (Cons y ys)
  then show ?case by (auto split: if_splits)
qed

lemma index_of_None: "index_of x xs = None \<longleftrightarrow> x \<notin> set xs"
  by (induction xs) auto

lemma col_index_Inr: "col_index df col = Inr i \<Longrightarrow> i < length (columns df) \<and> columns df ! i = col"
  by (auto simp: col_index_def split: option.splits if_splits dest: index_of_Some)

lemma col_index_cong: "columns df' = columns df \<Longrightarrow> col_index df' col = col_index df col"
  unfolding col_index_def by (erule ssubst) (rule refl)

lemma col_index_inj:
  "col_index df c = Inr i \<Longrightarrow> col_index df c' = Inr i \<Longrightarrow> c = c'"
  using col_index_Inr by blast

lemma length_pad_row: "length r \<le> n \<Longrightarrow> length (pad_row n r) = n"
  by (simp add: pad_row_def)

lemma read_csv_rectangular: "read_csv fs p = Inr df \<Longrightarrow> rectangular df"
  by (auto simp: read_csv_def rectangular_def list_all_iff list_ex_iff not_less length_pad_row
      split: file_state.splits if_splits)

lemma map_exn_Inl:
  "map_exn f xs = Inl e \<Longrightarrow> \<exists>x\<in>set xs. f x = Inl e"
  by (induction xs) (auto simp: bind_exn_eq_Inl)

lemma to_numeric_idem: "to_numeric parse (to_numeric parse c) = to_numeric parse c"
  by (cases c) (auto split: option.splits)

lemma fold_to_numeric_length: "length (fold (to_numeric_at parse) ixs r) = length r"
  by (induction ixs arbitrary: r) (simp_all add: to_numeric_at_def)

lemma fold_to_numeric_nth:
  "j < length r \<Longrightarrow>
   fold (to_numeric_at parse) ixs r ! j = (if j \<in> set ixs then to_numeric parse (r ! j) else r ! j)"
proof (induction ixs arbitrary: r)
  case Nil
  then show ?case by simp
next
  case (Cons i ixs)
  have len: "j < length (to_numeric_at parse i r)"
    using Cons.prems by (simp add: to_numeric_at_def)
  show ?case
  proof (cases "i = j")
    case True
    then show ?thesis
      using Cons.IH [OF len] Cons.prems
      by (simp add: to_numeric_at_def to_numeric_idem)
  next
    case False
    then show ?thesis
      using Cons.IH [OF len] Cons.prems
      by (simp add: to_numeric_at_def)
  qed
qed

lemma for_cols_Inr:
  "for_cols parse cols df = Inr df' \<Longrightarrow>
   \<exists>ixs. map_exn (col_index df) cols = Inr ixs \<and>
        df' = df\<lparr>rows := map (fold (to_numeric_at parse) ixs) (rows df)\<rparr>"
proof (induction cols arbitrary: df)
  case Nil
  then show ?case by simp
next
  case (Cons col cols)
  from Cons.prems obtain i where i: "col_index df col = Inr i"
    and rest: "for_cols parse cols (df\<lparr>rows := map (to_numeric_at parse i) (rows df)\<rparr>) = Inr df'"
    by (auto simp: to_numeric_col_def bind_exn_eq_Inr)
  let ?d = "df\<lparr>rows := map (to_numeric_at parse i) (rows df)\<rparr>"
  from Cons.IH [OF rest] obtain ixs where
    ixs: "map_exn (col_index ?d) cols = Inr ixs"
    and df': "df' = ?d\<lparr>rows := map (fold (to_numeric_at parse) ixs) (rows ?d)\<rparr>"
    by blast
  have "col_index ?d = col_index df"
    by (rule ext) (rule col_index_cong, simp)
  with ixs i have "map_exn (col_index df) (col # cols) = Inr (i # ixs)"
    by simp
  moreover have "df' = df\<lparr>rows := map (fold (to_numeric_at parse) (i # ixs)) (rows df)\<rparr>"
    using df' by simp
  ultimately show ?case by blast
qed

lemma col_index_Inl: "col_index df col = Inl e \<Longrightarrow> e = KeyError col \<or> e = DuplicateLabel col"
  by (auto simp: col_index_def split: option.splits if_splits)

lemma for_cols_Inl: "for_cols parse cols df = Inl e \<Longrightarrow> e \<noteq> FileNotFoundError"
proof (induction cols arbitrary: df)
  case Nil
  then show ?case by simp
next
  case (Cons col cols)
  then show ?case
    by (auto simp: to_numeric_col_def bind_exn_eq_Inl dest: col_index_Inl)
qed

lemma load_data_Inr:
  assumes "load_data fs parse p = (msgs, Inr df)"
  shows "(fs p = Missing \<and> df = empty_frame \<and> msgs = [StError (not_found_message p)]) \<or>
         (\<exists>df0 ixs. read_csv fs p = Inr df0 \<and> msgs = [] \<and>
            columns df = map strip (columns df0) \<and>
            map_exn (col_index df) numeric_columns = Inr ixs \<and>
            rows df = map (\<lambda>r. map fill_cell (fold (to_numeric_at parse) ixs r)) (rows df0))"
proof (cases "read_csv fs p")
  case (Inl e)
  with assms have "e = FileNotFoundError" "df = empty_frame" "msgs = [StError (not_found_message p)]"
    by (auto simp: load_data_def load_body_def split: exn.splits)
  moreover from Inl \<open>e = FileNotFoundError\<close> have "fs p = Missing"
    by (auto simp: read_csv_def split: file_state.splits if_splits)
  ultimately show ?thesis by simp
next
  case (Inr df0)
  let ?d = "df0\<lparr>columns := map strip (columns df0)\<rparr>"
  show ?thesis
  proof (cases "for_cols parse numeric_columns ?d")
    case (Inl e)
    have "e \<noteq> FileNotFoundError" using Inl by (rule for_cols_Inl)
    with assms Inr Inl show ?thesis
      by (auto simp: load_data_def load_body_def split: exn.splits)
  next
    case r: (Inr d1)
    from for_cols_Inr [OF r] obtain ixs where
      ixs: "map_exn (col_index ?d) numeric_columns = Inr ixs"
      and d1: "d1 = ?d\<lparr>rows := map (fold (to_numeric_at parse) ixs) (rows ?d)\<rparr>"
      by blast
    from assms Inr r have df: "df = fillna0 d1" and m: "msgs = []"
      by (auto simp: load_data_def load_body_def)
    have "col_index df = col_index ?d"
      by (rule ext) (rule col_index_cong, simp add: df d1 fillna0_def)
    with ixs df d1 m Inr show ?thesis
      by (simp add: fillna0_def)
  qed
qed

lemma fill_to_numeric_is_num: "is_num (fill_cell (to_numeric parse c))"
  by (cases c) (auto split: option.splits)

lemma fill_cell_not_NaN: "fill_cell c \<noteq> NaN"
  by (cases c) auto

lemma rectangularD: "rectangular df \<Longrightarrow> r \<in> set (rows df) \<Longrightarrow> length r = length (columns df)"
  by (simp add: rectangular_def list_all_iff)

lemma map_exn_Inr_set:
  assumes "map_exn f xs = Inr ys" and "x \<in> set xs" and "f x = Inr y"
  shows "y \<in> set ys"
proof -
  from assms(2) obtain n where n: "n < length xs" "xs ! n = x"
    by (auto simp: in_set_conv_nth)
  from map_exn_Inr_nth [OF assms(1) n(1)] n(2) assms(3) have "ys ! n = y" by simp
  moreover from map_exn_Inr_length [OF assms(1)] n(1) have "n < length ys" by simp
  ultimately show ?thesis by auto
qed

lemma map_exn_Inr_set_conv:
  assumes "map_exn f xs = Inr ys" and "y \<in> set ys"
  shows "\<exists>x\<in>set xs. f x = Inr y"
proof -
  from assms(2) obtain n where n: "n < length ys" "ys ! n = y"
    by (auto simp: in_set_conv_nth)
  with map_exn_Inr_length [OF assms(1)] have "n < length xs" by simp
  with map_exn_Inr_nth [OF assms(1)] n show ?thesis by force
qed

lemma load_data_cells:
  assumes rd: "read_csv fs p = Inr df0" and ld: "load_data fs parse p = (msgs, Inr df)"
  shows "msgs = [] \<and> columns df = map strip (columns df0) \<and>
         length (rows df) = length (rows df0) \<and>
         (\<forall>n<length (rows df0). length (rows df ! n) = length (columns df0) \<and>
            (\<forall>j<length (columns df0).
               rows df ! n ! j =
                 (if \<exists>col\<in>set numeric_columns. col_index df col = Inr j
                  then fill_cell (to_numeric parse (rows df0 ! n ! j))
                  else fill_cell (rows df0 ! n ! j))))"
proof -
  from rd have "fs p \<noteq> Missing"
    by (auto simp: read_csv_def)
  with load_data_Inr [OF ld] rd obtain ixs where
    m: "msgs = []" and c: "columns df = map strip (columns df0)"
    and ixs: "map_exn (col_index df) numeric_columns = Inr ixs"
    and r: "rows df = map (\<lambda>r. map fill_cell (fold (to_numeric_at parse) ixs r)) (rows df0)"
    by auto
  have rect: "rectangular df0" using rd by (rule read_csv_rectangular)
  have mem: "j \<in> set ixs \<longleftrightarrow> (\<exists>col\<in>set numeric_columns. col_index df col = Inr j)" for j
    using map_exn_Inr_set [OF ixs] map_exn_Inr_set_conv [OF ixs] by blast
  have "length (rows df ! n) = length (columns df0) \<and>
        (\<forall>j<length (columns df0).
           rows df ! n ! j =
             (if \<exists>col\<in>set numeric_columns. col_index df col = Inr j
              then fill_cell (to_numeric parse (rows df0 ! n ! j))
              else fill_cell (rows df0 ! n ! j)))"
    if n: "n < length (rows df0)" for n
  proof -
    let ?r0 = "rows df0 ! n"
    have len: "length ?r0 = length (columns df0)"
      using rect n by (simp add: rectangularD)
    have rn: "rows df ! n = map fill_cell (fold (to_numeric_at parse) ixs ?r0)"
      using n by (simp add: r)
    show ?thesis
      using len by (auto simp: rn fold_to_numeric_length fold_to_numeric_nth mem)
  qed
  then have cells: "\<forall>n<length (rows df0). length (rows df ! n) = length (columns df0) \<and>
        (\<forall>j<length (columns df0).
           rows df ! n ! j =
             (if \<exists>col\<in>set numeric_columns. col_index df col = Inr j
              then fill_cell (to_numeric parse (rows df0 ! n ! j))
              else fill_cell (rows df0 ! n ! j)))"
    by blast
  have "length (rows df) = length (rows df0)"
    by (simp add: r)
  with m c cells show ?thesis by blast
qed

lemma load_clean:
  assumes "load_data fs parse p = (msgs, Inr df)"
  shows "clean df"
proof (cases "fs p = Missing")
  case True
  with load_data_Inr [OF assms] have "df = empty_frame"
    by (auto simp: read_csv_def)
  then show ?thesis
    by (simp add: clean_def empty_frame_def rectangular_def)
next
  case False
  with load_data_Inr [OF assms] obtain df0 where rd: "read_csv fs p = Inr df0"
    by auto
  note cells = load_data_cells [OF rd assms]
  have row: "\<exists>n<length (rows df0). r = rows df ! n" if "r \<in> set (rows df)" for r
    using that cells by (auto simp: in_set_conv_nth)
  have cols: "length (columns df) = length (columns df0)"
    using cells by simp
  have "rectangular df"
    unfolding rectangular_def list_all_iff using row cells cols by auto
  moreover have "NaN \<notin> set r" if "r \<in> set (rows df)" for r
  proof
    assume "NaN \<in> set r"
    then obtain j where j: "j < length r" "r ! j = NaN"
      by (auto simp: in_set_conv_nth)
    from row [OF that] obtain n where n: "n < length (rows df0)" "r = rows df ! n" by blast
    with cells j have "j < length (columns df0)" by simp
    with cells n j show False
      by (auto simp: fill_cell_not_NaN split: if_splits)
  qed
  moreover have "is_num (r ! i)"
    if "col \<in> set numeric_columns" "col_index df col = Inr i" "r \<in> set (rows df)" for col i r
  proof -
    from row [OF that(3)] obtain n where n: "n < length (rows df0)" "r = rows df ! n" by blast
    from col_index_Inr [OF that(2)] cols have "i < length (columns df0)" by simp
    with cells n that(1,2) have "r ! i = fill_cell (to_numeric parse (rows df0 ! n ! i))"
      by auto
    then show ?thesis by (simp add: fill_to_numeric_is_num)
  qed
  ultimately show ?thesis
    by (auto simp: clean_def)
qed


lemma num_sum_nums:
  "\<forall>c\<in>set cs. is_num c \<Longrightarrow> num_sum cs = Inr (sum_list (map num_val cs))"
proof (induction cs)
  case Nil
  then show ?case by simp
next
  case (Cons c cs)
  then show ?case by (cases c) auto
qed

lemma is_num_conv: "is_num c \<longleftrightarrow> (\<exists>x. c = Num x)"
  by (cases c) auto


subsection \<open>A missing file\<close>




subsection \<open>Numeric columns\<close>



subsection \<open>The cache\<close>

text \<open>
  Claim C9. When a call of the cached \<open>load_data\<close> has returned a frame, a second
  call with the same path returns the same messages and the same frame, whatever has
  become of the file in between, and leaves the session as it was: the body is not
  run and the file is not read again.
\<close>

theorem cached_load_same_dataset:
  assumes "cached_load_data fs parse p s = ((msgs, Inr df), s')"
  shows "cached_load_data fs' parse' p s' = ((msgs, Inr df), s') \<and>
         reads (snd (cached_load_data fs' parse' p s')) = reads s'"
proof -
  have "cache s' p = Some (msgs, df)"
    using assms
    by (auto simp: cached_load_data_def split: option.splits prod.splits sum.splits)
  then show ?thesis
    by (simp add: cached_load_data_def)
qed

theorem cached_load_same_dataset_witness:
  "cached_load_data example_fs example_parse data_path new_session =
     (([], Inr example_df), \<lparr>cache = [data_path \<mapsto> ([], example_df)], reads = 1\<rparr>) \<and>
   cached_load_data (\<lambda>p. Missing) example_parse data_path
       \<lparr>cache = [data_path \<mapsto> ([], example_df)], reads = 1\<rparr> =
     (([], Inr example_df), \<lparr>cache = [data_path \<mapsto> ([], example_df)], reads = 1\<rparr>)"
proof -
  have first: "cached_load_data example_fs example_parse data_path new_session =
     (([], Inr example_df), \<lparr>cache = [data_path \<mapsto> ([], example_df)], reads = 1\<rparr>)"
    by (simp add: cached_load_data_def new_session_def example_load)
  from cached_load_same_dataset [OF first, of "\<lambda>p. Missing" example_parse] first
  show ?thesis by simp
qed

section \<open>Filtering and grouping\<close>

subsection \<open>Groups of a frame\<close>

lemma filter_disj_mset:
  "\<forall>x\<in>set xs. \<not> (P x \<and> Q x) \<Longrightarrow>
   mset (filter P xs) + mset (filter Q xs) = mset (filter (\<lambda>x. P x \<or> Q x) xs)"
  by (induction xs) auto

lemma concat_groups_mset:
  "distinct ks \<Longrightarrow>
   mset (concat (map (\<lambda>k. filter (\<lambda>r. f r = k) rs) ks)) = mset (filter (\<lambda>r. f r \<in> set ks) rs)"
proof (induction ks)
  case Nil
  then show ?case by simp
next
  case (Cons k ks)
  then have "mset (concat (map (\<lambda>k. filter (\<lambda>r. f r = k) rs) (k # ks))) =
        mset (filter (\<lambda>r. f r = k) rs) + mset (filter (\<lambda>r. f r \<in> set ks) rs)"
    by simp
  also have "\<dots> = mset (filter (\<lambda>r. f r = k \<or> f r \<in> set ks) rs)"
    using Cons.prems by (intro filter_disj_mset) auto
  also have "\<dots> = mset (filter (\<lambda>r. f r \<in> set (k # ks)) rs)"
    by (simp cong: filter_cong) 
  finally show ?case .
qed

lemma group_keys_distinct: "distinct (group_keys cs)"
  by (simp add: group_keys_def)

lemma group_keys_set: "set (group_keys cs) = set cs - {NaN}"
  by (auto simp: group_keys_def)

lemma groupby_Inr:
  "groupby df key = Inr gs \<longleftrightarrow>
   (\<exists>i. col_index df key = Inr i \<and>
        gs = map (\<lambda>k. (k, filter (\<lambda>r. r ! i = k) (rows df))) (group_keys (map (\<lambda>r. r ! i) (rows df))))"
  by (auto simp: groupby_def bind_exn_eq_Inr)

lemma groupby_mset:
  assumes "groupby df key = Inr gs" and "col_index df key = Inr i"
  shows "mset (concat (map snd gs)) = mset (filter (\<lambda>r. r ! i \<noteq> NaN) (rows df))"
proof -
  let ?ks = "group_keys (map (\<lambda>r. r ! i) (rows df))"
  from assms have gs: "gs = map (\<lambda>k. (k, filter (\<lambda>r. r ! i = k) (rows df))) ?ks"
    by (simp add: groupby_Inr)
  have "map snd gs = map (\<lambda>k. filter (\<lambda>r. r ! i = k) (rows df)) ?ks"
    by (simp add: gs comp_def)
  then have "mset (concat (map snd gs)) = mset (filter (\<lambda>r. r ! i \<in> set ?ks) (rows df))"
    by (simp add: concat_groups_mset group_keys_distinct)
  also have "\<dots> = mset (filter (\<lambda>r. r ! i \<noteq> NaN) (rows df))"
    by (rule arg_cong [where f = mset], rule filter_cong) (auto simp: group_keys_set)
  finally show ?thesis .
qed

lemma groupby_groups:
  assumes "groupby df key = Inr gs" and "col_index df key = Inr i"
  shows "distinct (map fst gs)" and "fst ` set gs = (\<lambda>r. r ! i) ` set (rows df) - {NaN}"
    and "\<forall>g\<in>set gs. snd g = filter (\<lambda>r. r ! i = fst g) (rows df)"
proof -
  let ?ks = "group_keys (map (\<lambda>r. r ! i) (rows df))"
  from assms have gs: "gs = map (\<lambda>k. (k, filter (\<lambda>r. r ! i = k) (rows df))) ?ks"
    by (simp add: groupby_Inr)
  have keys: "map fst gs = ?ks"
    by (simp add: gs comp_def)
  show "distinct (map fst gs)"
    by (simp add: keys group_keys_distinct)
  have "fst ` set gs = set (map fst gs)" by simp
  also have "\<dots> = (\<lambda>r. r ! i) ` set (rows df) - {NaN}"
    by (simp only: keys group_keys_set) simp
  finally show "fst ` set gs = (\<lambda>r. r ! i) ` set (rows df) - {NaN}" .
  show "\<forall>g\<in>set gs. snd g = filter (\<lambda>r. r ! i = fst g) (rows df)"
    by (auto simp: gs)
qed

lemma cell_eq_conv: "c \<noteq> NaN \<Longrightarrow> cell_eq c d \<longleftrightarrow> c = d"
  by (cases c; cases d) auto

lemma clean_cell:
  assumes "clean df" and "col_index df col = Inr i" and "r \<in> set (rows df)"
  shows "i < length r" and "r ! i \<noteq> NaN"
proof -
  from assms(1,3) have "length r = length (columns df)"
    by (simp add: clean_def rectangularD)
  with col_index_Inr [OF assms(2)] show "i < length r" by simp
  then have "r ! i \<in> set r" by simp
  with assms(1,3) show "r ! i \<noteq> NaN" by (auto simp: clean_def)
qed

lemma df_filtered_Inr:
  assumes "df_filtered df selected = Inr dff"
  shows "columns dff = columns df"
    and "selected = Str ''All'' \<Longrightarrow> dff = df"
    and "selected \<noteq> Str ''All'' \<Longrightarrow>
           \<exists>i. col_index df community = Inr i \<and>
               rows dff = filter (\<lambda>r. cell_eq (r ! i) selected) (rows df)"
  using assms
  by (auto simp: df_filtered_def select_rows_def bind_exn_eq_Inr split: if_splits)

lemma df_filtered_subset:
  "df_filtered df selected = Inr dff \<Longrightarrow> set (rows dff) \<subseteq> set (rows df)"
  by (auto simp: df_filtered_def select_rows_def bind_exn_eq_Inr split: if_splits)

lemma clean_filtered:
  assumes "clean df" and "df_filtered df selected = Inr dff"
  shows "clean dff"
proof -
  have c: "columns dff = columns df" using assms(2) by (rule df_filtered_Inr)
  have s: "set (rows dff) \<subseteq> set (rows df)" using assms(2) by (rule df_filtered_subset)
  have "col_index dff = col_index df"
    by (rule ext) (rule col_index_cong, rule c)
  with assms(1) c s show ?thesis
    by (auto simp: clean_def rectangular_def list_all_iff)
qed

lemma clean_groupby_mset:
  assumes "clean df" and "groupby df key = Inr gs"
  shows "mset (concat (map snd gs)) = mset (rows df)"
proof -
  from assms(2) obtain i where i: "col_index df key = Inr i"
    by (auto simp: groupby_Inr)
  have "filter (\<lambda>r. r ! i \<noteq> NaN) (rows df) = rows df"
    using clean_cell(2) [OF assms(1) i] by (simp add: filter_id_conv)
  with groupby_mset [OF assms(2) i] show ?thesis by simp
qed

lemma example_filtered_all: "df_filtered example_df (Str ''All'') = Inr example_df"
  by (simp add: df_filtered_def)

lemma example_community_index: "col_index example_df community = Inr 0"
  by (simp add: col_index_def example_df_def community_def)


lemma example_groupby_measure:
  "groupby example_df ''Measure'' =
     Inr [(Num 0, [[Str ''Madrid'', Str ''B'', Num 0, Num 250, Num 100, Num 500, Num 0]]),
          (Str ''m1'', [[Str ''Madrid'', Str ''A'', Str ''m1'', Num 500, Num 200, Num 1000, Num 1]]),
          (Str ''m3'', [[Str ''Cataluna'', Str ''C'', Str ''m3'', Num 0, Num 0, Num 2000, Num 0]])]"
  by (simp add: groupby_def col_index_def example_df_def community_def group_keys_def)

subsection \<open>The filtered view\<close>

text \<open>
  Claim C4. On a loaded frame the filtered view has the columns of the frame; it is
  the frame itself when the selection is \<open>'All'\<close>, and otherwise its rows are, in
  order and with their multiplicity, exactly the rows whose community cell equals the
  selection.
\<close>

theorem filtered_view_correct:
  assumes "load_data fs parse p = (msgs, Inr df)" and "df_filtered df selected = Inr dff"
  shows "columns dff = columns df \<and>
         (selected = Str ''All'' \<longrightarrow> dff = df) \<and>
         (selected \<noteq> Str ''All'' \<longrightarrow>
            (\<exists>i. col_index df community = Inr i \<and>
                 rows dff = filter (\<lambda>r. r ! i = selected) (rows df)))"
proof -
  have cl: "clean df" using assms(1) by (rule load_clean)
  have "\<exists>i. col_index df community = Inr i \<and>
            rows dff = filter (\<lambda>r. r ! i = selected) (rows df)"
    if "selected \<noteq> Str ''All''"
  proof -
    from df_filtered_Inr(3) [OF assms(2) that] obtain i where
      i: "col_index df community = Inr i"
      and r: "rows dff = filter (\<lambda>r. cell_eq (r ! i) selected) (rows df)"
      by blast
    have "filter (\<lambda>r. cell_eq (r ! i) selected) (rows df) =
          filter (\<lambda>r. r ! i = selected) (rows df)"
      by (rule filter_cong) (simp_all add: cell_eq_conv clean_cell(2) [OF cl i])
    with i r show ?thesis by simp
  qed
  with df_filtered_Inr(1,2) [OF assms(2)] show ?thesis by blast
qed

theorem filtered_view_correct_witness:
  "load_data example_fs example_parse data_path = ([], Inr example_df) \<and>
   df_filtered example_df (Str ''Madrid'') = Inr example_madrid \<and>
   Str ''Madrid'' \<noteq> Str ''All'' \<and>
   rows example_madrid = filter (\<lambda>r. r ! 0 = Str ''Madrid'') (rows example_df) \<and>
   df_filtered example_df (Str ''All'') = Inr example_df"
  using filtered_view_correct [OF example_load example_filtered]
    filtered_view_correct [OF example_load example_filtered_all]
    example_load example_filtered example_filtered_all example_community_index
  by auto

subsection \<open>Completeness of grouping\<close>



subsection \<open>Zero substitution in every column\<close>

text \<open>
  Claim C10. \<open>fillna(0)\<close> acts on every column: after a load no cell is missing, a
  cell missing in the file is the number \<open>0\<close> whatever its column, no group key of
  any group-by of the frame or of a filtered view is missing, and the groups keep
  every row.
\<close>

theorem fillna_every_column:
  assumes "read_csv fs p = Inr df0" and "load_data fs parse p = (msgs, Inr df)"
  shows "length (rows df) = length (rows df0) \<and>
         (\<forall>n<length (rows df0). \<forall>j<length (columns df0).
            rows df ! n ! j \<noteq> NaN \<and> (rows df0 ! n ! j = NaN \<longrightarrow> rows df ! n ! j = Num 0)) \<and>
         (\<forall>r\<in>set (rows df). NaN \<notin> set r) \<and>
         (\<forall>selected dff key gs.
            df_filtered df selected = Inr dff \<longrightarrow> groupby dff key = Inr gs \<longrightarrow>
              NaN \<notin> fst ` set gs \<and> mset (concat (map snd gs)) = mset (rows dff))"
proof -
  note cells = load_data_cells [OF assms]
  have cl: "clean df" using assms(2) by (rule load_clean)
  have a: "rows df ! n ! j \<noteq> NaN \<and> (rows df0 ! n ! j = NaN \<longrightarrow> rows df ! n ! j = Num 0)"
    if "n < length (rows df0)" "j < length (columns df0)" for n j
  proof -
    from cells that have
      "rows df ! n ! j = fill_cell (to_numeric parse (rows df0 ! n ! j)) \<or>
       rows df ! n ! j = fill_cell (rows df0 ! n ! j)"
      by (auto split: if_splits)
    then show ?thesis
      using fill_cell_not_NaN [of "to_numeric parse (rows df0 ! n ! j)"]
        fill_cell_not_NaN [of "rows df0 ! n ! j"]
      by auto
  qed
  have b: "NaN \<notin> fst ` set gs \<and> mset (concat (map snd gs)) = mset (rows dff)"
    if "df_filtered df selected = Inr dff" "groupby dff key = Inr gs" for selected dff key gs
  proof -
    have cf: "clean dff" using cl that(1) by (rule clean_filtered)
    from that(2) obtain i where i: "col_index dff key = Inr i"
      by (auto simp: groupby_Inr)
    from groupby_groups(2) [OF that(2) i] have "NaN \<notin> fst ` set gs" by simp
    with clean_groupby_mset [OF cf that(2)] show ?thesis by simp
  qed
  from cells a b cl show ?thesis
    by (simp add: clean_def)
qed

theorem fillna_every_column_witness:
  "read_csv example_fs data_path = Inr example_raw \<and>
   load_data example_fs example_parse data_path = ([], Inr example_df) \<and>
   rows example_raw ! 1 ! 2 = NaN \<and> rows example_df ! 1 ! 2 = Num 0 \<and>
   df_filtered example_df (Str ''All'') = Inr example_df \<and>
   mset (concat (map snd
     [(Num 0, [[Str ''Madrid'', Str ''B'', Num 0, Num 250, Num 100, Num 500, Num 0]]),
      (Str ''m1'', [[Str ''Madrid'', Str ''A'', Str ''m1'', Num 500, Num 200, Num 1000, Num 1]]),
      (Str ''m3'', [[Str ''Cataluna'', Str ''C'', Str ''m3'', Num 0, Num 0, Num 2000, Num 0]])]))
     = mset (rows example_df)"
proof -
  note t = fillna_every_column [OF example_read example_load]
  have "(1::nat) < length (rows example_raw)" "(2::nat) < length (columns example_raw)"
    "rows example_raw ! 1 ! 2 = NaN"
    by (simp_all add: example_raw_def example_header_def)
  with t have "rows example_df ! 1 ! 2 = Num 0" by blast
  moreover from t example_filtered_all example_groupby_measure
  have "mset (concat (map snd
     [(Num 0, [[Str ''Madrid'', Str ''B'', Num 0, Num 250, Num 100, Num 500, Num 0]]),
      (Str ''m1'', [[Str ''Madrid'', Str ''A'', Str ''m1'', Num 500, Num 200, Num 1000, Num 1]]),
      (Str ''m3'', [[Str ''Cataluna'', Str ''C'', Str ''m3'', Num 0, Num 0, Num 2000, Num 0]])]))
     = mset (rows example_df)"
    by blast
  ultimately show ?thesis
    using example_read example_load example_filtered_all
      \<open>rows example_raw ! 1 ! 2 = NaN\<close> by blast
qed

section \<open>Aggregates\<close>

subsection \<open>Measure counts\<close>

lemma count_cells_clean:
  assumes "clean df" and "col_index df col = Inr j" and "set rs \<subseteq> set (rows df)"
  shows "count_cells (map (\<lambda>r. r ! j) rs) = length rs"
proof -
  have "\<forall>r\<in>set rs. r ! j \<noteq> NaN"
    using clean_cell(2) [OF assms(1,2)] assms(3) by blast
  then show ?thesis
    by (simp add: count_cells_def filter_id_conv)
qed

lemma num_sum_clean:
  assumes "clean df" and "col_index df col = Inr j" and "col \<in> set numeric_columns"
    and "set rs \<subseteq> set (rows df)"
  shows "num_sum (map (\<lambda>r. r ! j) rs) = Inr (\<Sum>r\<leftarrow>rs. num_val (r ! j))"
proof -
  from assms have "\<forall>r\<in>set rs. is_num (r ! j)"
    by (auto simp: clean_def)
  then show ?thesis
    using num_sum_nums [of "map (\<lambda>r. r ! j) rs"] by (simp add: comp_def)
qed

lemma group_count_Inr:
  "group_count df key val = Inr g \<longleftrightarrow>
   (\<exists>gs j. groupby df key = Inr gs \<and> col_index df val = Inr j \<and>
      g = map (\<lambda>(k, rs). (k, count_cells (map (\<lambda>r. r ! j) rs))) gs)"
  by (auto simp: group_count_def bind_exn_eq_Inr)

lemma groupby_rows_subset:
  assumes "groupby df key = Inr gs" and "g \<in> set gs"
  shows "set (snd g) \<subseteq> set (rows df)"
  using assms by (auto simp: groupby_Inr)

lemma clean_group_count:
  assumes "clean df" and "group_count df key val = Inr g"
  shows "\<exists>gs. groupby df key = Inr gs \<and> g = map (\<lambda>g. (fst g, length (snd g))) gs"
proof -
  from assms(2) obtain gs j where gs: "groupby df key = Inr gs"
    and j: "col_index df val = Inr j"
    and g: "g = map (\<lambda>(k, rs). (k, count_cells (map (\<lambda>r. r ! j) rs))) gs"
    by (auto simp: group_count_Inr)
  have "g = map (\<lambda>g. (fst g, length (snd g))) gs"
    unfolding g
    by (rule map_cong)
      (auto simp: count_cells_clean [OF assms(1) j] dest: groupby_rows_subset [OF gs])
  with gs show ?thesis by blast
qed

lemma sort_desc_count_sorted: "sorted_wrt (\<lambda>a b. snd b \<le> snd a) (sort_desc_count g)"
proof -
  have "sorted (map (\<lambda>g. - int (snd g)) (sort_desc_count g))"
    unfolding sort_desc_count_def by (rule sorted_sort_key)
  then show ?thesis
    by (simp add: sorted_map)
qed

lemma sort_desc_count_mset: "mset (sort_desc_count g) = mset g"
  by (simp add: sort_desc_count_def)

lemma example_measure_counts_all:
  "measure_counts example_df example_df (Str ''All'') =
     Inr [(Str ''Madrid'', 2), (Str ''Cataluna'', 1)]"
  by (simp add: measure_counts_def group_count_def groupby_def col_index_def bind_exn_def
      example_df_def community_def group_keys_def count_cells_def sort_desc_count_def)

lemma example_measure_counts_madrid:
  "measure_counts example_df example_madrid (Str ''Madrid'') =
     Inr [(Str ''A'', 1), (Str ''B'', 1)]"
  by (simp add: measure_counts_def group_count_def groupby_def col_index_def bind_exn_def
      example_madrid_def community_def group_keys_def count_cells_def sort_desc_count_def)

text \<open>
  Claim C7. With \<open>'All'\<close> selected the measure counts are the community groups of
  the whole frame, each with its number of rows; otherwise they are the centre groups
  of the filtered view, each with its number of rows. Either way the list is a
  rearrangement of those pairs in descending order of the count.
\<close>

theorem measure_counts_correct:
  assumes "load_data fs parse p = (msgs, Inr df)" and "df_filtered df selected = Inr dff"
    and "measure_counts df dff selected = Inr mc"
  shows "(selected = Str ''All'' \<longrightarrow>
            (\<exists>gs. groupby df community = Inr gs \<and>
                  mset mc = mset (map (\<lambda>g. (fst g, length (snd g))) gs))) \<and>
         (selected \<noteq> Str ''All'' \<longrightarrow>
            (\<exists>gs. groupby dff ''Center'' = Inr gs \<and>
                  mset mc = mset (map (\<lambda>g. (fst g, length (snd g))) gs))) \<and>
         sorted_wrt (\<lambda>a b. snd b \<le> snd a) mc"
proof -
  have cl: "clean df" using assms(1) by (rule load_clean)
  have cf: "clean dff" using cl assms(2) by (rule clean_filtered)
  show ?thesis
  proof (cases "selected = Str ''All''")
    case True
    with assms(3) obtain g where g: "group_count df community ''Measure'' = Inr g"
      and mc: "mc = sort_desc_count g"
      by (auto simp: measure_counts_def bind_exn_eq_Inr)
    from clean_group_count [OF cl g] mc True show ?thesis
      by (auto simp: sort_desc_count_mset sort_desc_count_sorted)
  next
    case False
    with assms(3) obtain g where g: "group_count dff ''Center'' ''Measure'' = Inr g"
      and mc: "mc = sort_desc_count g"
      by (auto simp: measure_counts_def bind_exn_eq_Inr)
    from clean_group_count [OF cf g] mc False show ?thesis
      by (auto simp: sort_desc_count_mset sort_desc_count_sorted)
  qed
qed

theorem measure_counts_correct_witness:
  "load_data example_fs example_parse data_path = ([], Inr example_df) \<and>
   df_filtered example_df (Str ''All'') = Inr example_df \<and>
   measure_counts example_df example_df (Str ''All'') =
     Inr [(Str ''Madrid'', 2), (Str ''Cataluna'', 1)] \<and>
   sorted_wrt (\<lambda>a b. snd b \<le> snd a) [(Str ''Madrid'', 2::nat), (Str ''Cataluna'', 1)] \<and>
   df_filtered example_df (Str ''Madrid'') = Inr example_madrid \<and>
   Str ''Madrid'' \<noteq> Str ''All'' \<and>
   measure_counts example_df example_madrid (Str ''Madrid'') =
     Inr [(Str ''A'', 1), (Str ''B'', 1)] \<and>
   (\<exists>gs. groupby example_madrid ''Center'' = Inr gs \<and>
      mset [(Str ''A'', 1), (Str ''B'', 1)] = mset (map (\<lambda>g. (fst g, length (snd g))) gs))"
  using measure_counts_correct [OF example_load example_filtered_all example_measure_counts_all]
    measure_counts_correct [OF example_load example_filtered example_measure_counts_madrid]
    example_load example_filtered_all example_measure_counts_all example_filtered
    example_measure_counts_madrid
  by simp

subsection \<open>Investment summary\<close>



lemma energy_numeric: "''Energy Saved'' \<in> set numeric_columns"
  by (simp add: numeric_columns_def)





subsection \<open>The Madrid branch\<close>

lemma negative_load: "load_data negative_fs example_parse data_path = ([], Inr negative_df)"
  by (simp add: load_data_def load_body_def read_csv_def negative_fs_def bind_exn_def
      numeric_columns_def to_numeric_col_def to_numeric_at_def col_index_def pad_row_def
      strip_def is_space_def community_def fillna0_def negative_df_def)

lemma negative_filtered: "df_filtered negative_df (Str ''Madrid'') = Inr negative_df"
  by (simp add: df_filtered_def select_rows_def col_index_def bind_exn_def negative_df_def
      community_def)

lemma negative_col_sum: "col_sum negative_df ''Energy Saved'' = Inr (- 5)"
  by (simp add: col_sum_def series_def col_index_def negative_df_def community_def)

lemma negative_madrid_branch:
  "madrid_branch negative_df (Str ''Madrid'') = Inr (Some [Num 0])"
  by (simp add: madrid_branch_def energy_saving_percent_def series_def col_index_def
      bind_exn_def negative_df_def community_def)

lemma example_madrid_branch:
  "madrid_branch example_madrid (Str ''Madrid'') = Inr (Some [Num (200 / 3), Num (100 / 3)])"
  by (simp add: madrid_branch_def energy_saving_percent_def series_def col_index_def
      bind_exn_def example_madrid_def community_def)

lemma example_madrid_branch_all: "madrid_branch example_df (Str ''All'') = Inr None"
  by (simp add: madrid_branch_def)

text \<open>
  Claim C6, as stated, fails when the total energy saved is negative: the guard is
  \<open>total_energy_saved_madrid > 0\<close>, so the column is \<open>0\<close> although the total is not
  \<open>0\<close>, where the quotient would be \<open>100\<close>.
\<close>

theorem negative_total_percent:
  "load_data negative_fs example_parse data_path = ([], Inr negative_df) \<and>
   df_filtered negative_df (Str ''Madrid'') = Inr negative_df \<and>
   col_sum negative_df ''Energy Saved'' = Inr (- 5) \<and>
   (- 5 :: real) \<noteq> 0 \<and>
   madrid_branch negative_df (Str ''Madrid'') = Inr (Some [Num 0]) \<and>
   Num (- 5 / - 5 * 100) \<noteq> Num 0"
  using negative_load negative_filtered negative_col_sum negative_madrid_branch
  by simp

text \<open>
  Claim C6, amended. The percent column is computed only when the selection is
  \<open>'Madrid'\<close>; it has one cell per row of the filtered view, which is
  \<open>(energy_saved / total) * 100\<close> when the total energy saved of the view is positive
  and \<open>0\<close> when that total is \<open>0\<close> or negative.
\<close>

theorem energy_saving_percent_correct:
  assumes "load_data fs parse p = (msgs, Inr df)" and "df_filtered df selected = Inr dff"
    and "madrid_branch dff selected = Inr pct"
  shows "(selected \<noteq> Str ''Madrid'' \<longrightarrow> pct = None) \<and>
         (selected = Str ''Madrid'' \<longrightarrow>
            (\<exists>i tot pc. col_index dff ''Energy Saved'' = Inr i \<and>
               col_sum dff ''Energy Saved'' = Inr tot \<and>
               tot = (\<Sum>r\<leftarrow>rows dff. num_val (r ! i)) \<and>
               pct = Some pc \<and> length pc = length (rows dff) \<and>
               (\<forall>n<length (rows dff).
                  (0 < tot \<longrightarrow> pc ! n = Num (num_val (rows dff ! n ! i) / tot * 100)) \<and>
                  (tot \<le> 0 \<longrightarrow> pc ! n = Num 0))))"
proof (cases "selected = Str ''Madrid''")
  case False
  with assms(3) show ?thesis
    by (simp add: madrid_branch_def)
next
  case True
  have cf: "clean dff"
    using load_clean [OF assms(1)] assms(2) by (rule clean_filtered)
  from True assms(3) obtain pc where pc: "energy_saving_percent dff = Inr pc"
    and pct: "pct = Some pc"
    by (auto simp: madrid_branch_def bind_exn_eq_Inr)
  from pc obtain i tot where i: "col_index dff ''Energy Saved'' = Inr i"
    and tot: "num_sum (map (\<lambda>r. r ! i) (rows dff)) = Inr tot"
    and body: "(if 0 < tot then map_exn (percent_cell tot) (map (\<lambda>r. r ! i) (rows dff))
                else Inr (replicate (length (rows dff)) (Num 0))) = Inr pc"
    by (auto simp: energy_saving_percent_def series_def bind_exn_eq_Inr)
  have sum: "tot = (\<Sum>r\<leftarrow>rows dff. num_val (r ! i))"
    using num_sum_clean [OF cf i energy_numeric subset_refl] tot by simp
  have cs: "col_sum dff ''Energy Saved'' = Inr tot"
    using i tot by (simp add: col_sum_def series_def)
  have nums: "\<forall>r\<in>set (rows dff). is_num (r ! i)"
    using cf i energy_numeric by (auto simp: clean_def)
  have pos: "pc = map (\<lambda>c. Num (num_val c / tot * 100)) (map (\<lambda>r. r ! i) (rows dff))"
    if "0 < tot"
  proof -
    have "map_exn (percent_cell tot) (map (\<lambda>r. r ! i) (rows dff)) =
          Inr (map (\<lambda>c. Num (num_val c / tot * 100)) (map (\<lambda>r. r ! i) (rows dff)))"
      by (rule map_exn_total) (use nums in \<open>auto simp: is_num_conv\<close>)
    with body that show ?thesis by simp
  qed
  have neg: "pc = replicate (length (rows dff)) (Num 0)" if "tot \<le> 0"
    using body that by simp
  have len: "length pc = length (rows dff)"
    using pos neg by (cases "0 < tot") auto
  have each: "(0 < tot \<longrightarrow> pc ! n = Num (num_val (rows dff ! n ! i) / tot * 100)) \<and>
              (tot \<le> 0 \<longrightarrow> pc ! n = Num 0)"
    if "n < length (rows dff)" for n
    using pos neg that by auto
  from True i cs sum pct len each show ?thesis by blast
qed

theorem energy_saving_percent_correct_witness:
  "load_data example_fs example_parse data_path = ([], Inr example_df) \<and>
   df_filtered example_df (Str ''Madrid'') = Inr example_madrid \<and>
   madrid_branch example_madrid (Str ''Madrid'') = Inr (Some [Num (200 / 3), Num (100 / 3)]) \<and>
   (\<exists>i tot. col_index example_madrid ''Energy Saved'' = Inr i \<and>
      col_sum example_madrid ''Energy Saved'' = Inr tot \<and> 0 < tot \<and>
      Num (200 / 3) = Num (num_val (rows example_madrid ! 0 ! i) / tot * 100)) \<and>
   df_filtered example_df (Str ''All'') = Inr example_df \<and>
   Str ''All'' \<noteq> Str ''Madrid'' \<and>
   madrid_branch example_df (Str ''All'') = Inr None \<and>
   load_data negative_fs example_parse data_path = ([], Inr negative_df) \<and>
   df_filtered negative_df (Str ''Madrid'') = Inr negative_df \<and>
   madrid_branch negative_df (Str ''Madrid'') = Inr (Some [Num 0]) \<and>
   (\<exists>tot. col_sum negative_df ''Energy Saved'' = Inr tot \<and> tot \<le> 0)"
proof -
  have i: "col_index example_madrid ''Energy Saved'' = Inr 3"
    by (simp add: col_index_def example_madrid_def community_def)
  have s: "col_sum example_madrid ''Energy Saved'' = Inr 750"
    by (simp add: col_sum_def series_def i) (simp add: example_madrid_def)
  note n = negative_col_sum
  from energy_saving_percent_correct [OF example_load example_filtered example_madrid_branch] i s
  have "[Num (200 / 3), Num (100 / 3)] ! 0 = Num (num_val (rows example_madrid ! 0 ! 3) / 750 * 100)"
    by (auto simp: example_madrid_def)
  with i s have a: "\<exists>i tot. col_index example_madrid ''Energy Saved'' = Inr i \<and>
      col_sum example_madrid ''Energy Saved'' = Inr tot \<and> 0 < tot \<and>
      Num (200 / 3) = Num (num_val (rows example_madrid ! 0 ! i) / tot * 100)"
    by (intro exI [of _ 3] exI [of _ 750]) simp
  from energy_saving_percent_correct [OF negative_load negative_filtered negative_madrid_branch] n
  have b: "\<exists>tot. col_sum negative_df ''Energy Saved'' = Inr tot \<and> tot \<le> 0"
    by auto
  from energy_saving_percent_correct [OF example_load example_filtered_all example_madrid_branch_all]
  have c: "Str ''All'' \<noteq> Str ''Madrid''" by simp
  from a b c show ?thesis
    using example_load example_filtered example_madrid_branch example_filtered_all
      example_madrid_branch_all negative_load negative_filtered negative_madrid_branch
    by blast
qed

end
